theory Spec2Isabelle
  imports Main "HOL-Library.Multiset"
begin

section \<open>Quiz application backend: ledger, tournament engine, quiz rate limiter\<close>

text \<open>
  The development embeds three parts of the backend:
  \<^item> the balance methods of the user model (\<^verbatim>\<open>addBalance\<close>, \<^verbatim>\<open>deductBalance\<close>),
    which the source keeps in \<^verbatim>\<open>src/models/Tournament.js\<close> after the tournament model;
  \<^item> the tournament model's instance methods and the tournament routes that call them
    (\<^verbatim>\<open>src/routes/telegram.js\<close>);
  \<^item> \<^verbatim>\<open>canTakeQuiz\<close> of \<^verbatim>\<open>src/services/quizSecurityService.js\<close>.

  JavaScript numbers are modelled as \<open>int\<close>: amounts, scores, ranks and millisecond
  timestamps are treated as exact integers, so rounding of doubles, \<^verbatim>\<open>NaN\<close> and
  infinities are outside the model. Identifiers (\<^verbatim>\<open>ObjectId\<close>s compared through
  \<^verbatim>\<open>toString()\<close>) are strings. A thrown \<^verbatim>\<open>Error\<close> and an HTTP error response are
  values of the type \<open>error\<close>; a method that mutates \<^verbatim>\<open>this\<close> returns the new object.
  In every method embedded here the \<^verbatim>\<open>throw\<close> statements come before the first
  assignment to \<^verbatim>\<open>this\<close>, so a result \<open>Inl e\<close> stands for an object left as it was.
\<close>

subsection \<open>User balances\<close>

record user =
  playableBalance :: int
  bonusBalance :: int
  balance :: int
  totalEarned :: int

text \<open>
  \<^verbatim>\<open>addBalance(amount, type = 'playable')\<close>: the bucket named by \<open>type\<close> grows, a
  \<open>type\<close> that is neither \<^verbatim>\<open>'playable'\<close> nor \<^verbatim>\<open>'bonus'\<close> touches no bucket; the
  aggregate is recomputed and \<open>totalEarned\<close> grows in every case.
\<close>

definition addBalance :: "int \<Rightarrow> string \<Rightarrow> user \<Rightarrow> user" where
  "addBalance amount type u =
     (let u1 = (if type = ''playable'' then u\<lparr>playableBalance := playableBalance u + amount\<rparr>
                else if type = ''bonus'' then u\<lparr>bonusBalance := bonusBalance u + amount\<rparr>
                else u);
          u2 = u1\<lparr>balance := playableBalance u1 + bonusBalance u1\<rparr>
      in u2\<lparr>totalEarned := totalEarned u2 + amount\<rparr>)"

text \<open>
  \<^verbatim>\<open>deductBalance(amount, type = 'playable')\<close> returns the boolean of the source
  together with the user after the call.
\<close>

definition deductBalance :: "int \<Rightarrow> string \<Rightarrow> user \<Rightarrow> bool \<times> user" where
  "deductBalance amount type u =
     (if type = ''playable'' \<and> playableBalance u \<ge> amount then
        (let u1 = u\<lparr>playableBalance := playableBalance u - amount\<rparr>
         in (True, u1\<lparr>balance := playableBalance u1 + bonusBalance u1\<rparr>))
      else if type = ''bonus'' \<and> bonusBalance u \<ge> amount then
        (let u1 = u\<lparr>bonusBalance := bonusBalance u - amount\<rparr>
         in (True, u1\<lparr>balance := playableBalance u1 + bonusBalance u1\<rparr>))
      else (False, u))"

text \<open>A ledger operation, and the users seen after each operation of a sequence.\<close>

datatype ledger_op = Credit int string | Debit int string

fun apply_ledger_op :: "ledger_op \<Rightarrow> user \<Rightarrow> user" where
  "apply_ledger_op (Credit amount type) u = addBalance amount type u"
| "apply_ledger_op (Debit amount type) u = snd (deductBalance amount type u)"

fun ledger_trace :: "ledger_op list \<Rightarrow> user \<Rightarrow> user list" where
  "ledger_trace [] u = []"
| "ledger_trace (x # xs) u = apply_ledger_op x u # ledger_trace xs (apply_ledger_op x u)"

definition valid_user :: "user \<Rightarrow> bool" where
  "valid_user u \<longleftrightarrow>
     balance u = playableBalance u + bonusBalance u \<and>
     0 \<le> playableBalance u \<and> 0 \<le> bonusBalance u \<and> 0 \<le> balance u"

fun credit_amount_ok :: "ledger_op \<Rightarrow> bool" where
  "credit_amount_ok (Credit amount type) = (0 \<le> amount)"
| "credit_amount_ok (Debit amount type) = True"

definition bucket_of :: "string \<Rightarrow> user \<Rightarrow> int" where
  "bucket_of type u =
     (if type = ''playable'' then playableBalance u
      else if type = ''bonus'' then bonusBalance u else 0)"

subsection \<open>Tournament model\<close>

datatype error =
    Error string
  | Response nat string string

text \<open>
  \<open>Error m\<close> is a thrown \<^verbatim>\<open>new Error(m)\<close>; \<open>Response s c m\<close> is the JSON error
  response with HTTP status \<open>s\<close>, error code \<open>c\<close> and message \<open>m\<close>.
\<close>

datatype tournament_status = Upcoming | Active | Completed | Cancelled

datatype tournament_phase = Registration | Quiz | Results

record answer =
  questionId :: string
  selectedAnswer :: int
  isCorrect :: bool
  answerTimeSpent :: int

record participant =
  user :: string
  joinedAt :: int
  score :: int
  timeSpent :: int
  answers :: "answer list"
  rank :: int
  prize :: int

record top_participant =
  top_user :: string
  top_rank :: int
  top_score :: int
  top_prize :: int

record prize_info =
  dist_rank :: int
  dist_prize :: int
  percentage :: int

record tournament =
  title :: string
  entryFee :: int
  maxParticipants :: int
  minParticipants :: int
  participants :: "participant list"
  status :: tournament_status
  phase :: tournament_phase
  registrationStart :: int
  registrationEnd :: int
  startTime :: int
  endTime :: int
  actualStartTime :: "int option"
  actualEndTime :: "int option"
  winner :: "string option"
  topParticipants :: "top_participant list"
  prizeDistribution :: "prize_info list"
  totalPrizes :: int
  isPrivate :: bool

text \<open>
  The virtual \<^verbatim>\<open>isRegistrationOpen\<close>; \<open>now\<close> is the value of \<^verbatim>\<open>new Date()\<close>.
\<close>

definition isRegistrationOpen :: "int \<Rightarrow> tournament \<Rightarrow> bool" where
  "isRegistrationOpen now t \<longleftrightarrow>
     status t = Upcoming \<and> now \<ge> registrationStart t \<and> now \<le> registrationEnd t \<and>
     int (length (participants t)) < maxParticipants t"

text \<open>
  \<^verbatim>\<open>this.participants.find(p => p.user.toString() === userId.toString())\<close>, the lookup
  that opens \<^verbatim>\<open>addParticipant\<close>, \<^verbatim>\<open>updateParticipantScore\<close> and \<^verbatim>\<open>canJoin\<close>
  (\<^verbatim>\<open>removeParticipant\<close> uses \<^verbatim>\<open>findIndex\<close> with the same test).
\<close>

definition findParticipant :: "string \<Rightarrow> tournament \<Rightarrow> participant option" where
  "findParticipant userId t = find (\<lambda>p. user p = userId) (participants t)"

definition new_participant :: "string \<Rightarrow> int \<Rightarrow> participant" where
  "new_participant userId now =
     \<lparr>user = userId, joinedAt = now, score = 0, timeSpent = 0, answers = [],
      rank = 0, prize = 0\<rparr>"

definition addParticipant :: "int \<Rightarrow> string \<Rightarrow> tournament \<Rightarrow> error + tournament" where
  "addParticipant now userId t =
     (if findParticipant userId t \<noteq> None then
        Inl (Error ''User is already a participant'')
      else if int (length (participants t)) \<ge> maxParticipants t then
        Inl (Error ''Tournament is full'')
      else if \<not> isRegistrationOpen now t then
        Inl (Error ''Registration is closed'')
      else Inr (t\<lparr>participants := participants t @ [new_participant userId now]\<rparr>))"



definition startTournament :: "int \<Rightarrow> tournament \<Rightarrow> error + tournament" where
  "startTournament now t =
     (if status t \<noteq> Upcoming then Inl (Error ''Tournament cannot be started'')
      else if int (length (participants t)) < minParticipants t then
        Inl (Error ''Not enough participants to start tournament'')
      else Inr (t\<lparr>status := Active, phase := Quiz, actualStartTime := Some now\<rparr>))"

text \<open>
  The comparator handed to \<^verbatim>\<open>participants.sort\<close>: negative when \<open>a\<close> goes first.
\<close>

definition compareParticipants :: "participant \<Rightarrow> participant \<Rightarrow> int" where
  "compareParticipants a b =
     (if score b \<noteq> score a then score b - score a else timeSpent a - timeSpent b)"

text \<open>
  \<^verbatim>\<open>Array.prototype.sort\<close> is stable, and with a comparator that is a total preorder
  the stable sorted arrangement is unique whatever algorithm the engine runs. It is
  computed here by stable insertion: an element is placed before the first element it
  does not compare greater than.
\<close>

fun sort_insert :: "('a \<Rightarrow> 'a \<Rightarrow> int) \<Rightarrow> 'a \<Rightarrow> 'a list \<Rightarrow> 'a list" where
  "sort_insert cmp x [] = [x]"
| "sort_insert cmp x (y # ys) =
     (if cmp x y \<le> 0 then x # y # ys else y # sort_insert cmp x ys)"

fun array_sort :: "('a \<Rightarrow> 'a \<Rightarrow> int) \<Rightarrow> 'a list \<Rightarrow> 'a list" where
  "array_sort cmp [] = []"
| "array_sort cmp (x # xs) = sort_insert cmp x (array_sort cmp xs)"

text \<open>\<^verbatim>\<open>forEach((participant, index) => participant.rank = index + 1)\<close>, from index \<open>i\<close>.\<close>

fun assignRanks :: "nat \<Rightarrow> participant list \<Rightarrow> participant list" where
  "assignRanks i [] = []"
| "assignRanks i (p # ps) = p\<lparr>rank := int i + 1\<rparr> # assignRanks (Suc i) ps"

definition top_of :: "participant \<Rightarrow> top_participant" where
  "top_of p = \<lparr>top_user = user p, top_rank = rank p, top_score = score p, top_prize = prize p\<rparr>"

definition calculateRankings :: "tournament \<Rightarrow> tournament" where
  "calculateRankings t =
     (let ranked = assignRanks 0 (array_sort compareParticipants (participants t));
          t1 = t\<lparr>participants := ranked\<rparr>;
          t2 = (case ranked of [] \<Rightarrow> t1 | p # _ \<Rightarrow> t1\<lparr>winner := Some (user p)\<rparr>)
      in t2\<lparr>topParticipants := map top_of (take 10 ranked)\<rparr>)"

definition award :: "prize_info list \<Rightarrow> participant \<Rightarrow> participant" where
  "award dist p =
     (case find (\<lambda>e. dist_rank e = rank p) dist of
        Some prizeInfo \<Rightarrow> p\<lparr>prize := dist_prize prizeInfo\<rparr>
      | None \<Rightarrow> p)"

definition distributePrizes :: "tournament \<Rightarrow> tournament" where
  "distributePrizes t =
     (if prizeDistribution t = [] then t
      else (let ps = map (award (prizeDistribution t)) (participants t)
            in t\<lparr>participants := ps, totalPrizes := sum_list (map prize ps)\<rparr>))"

definition completeTournament :: "int \<Rightarrow> tournament \<Rightarrow> error + tournament" where
  "completeTournament now t =
     (if status t \<noteq> Active then Inl (Error ''Tournament is not active'')
      else Inr (distributePrizes (calculateRankings
                 (t\<lparr>status := Completed, phase := Results, actualEndTime := Some now\<rparr>))))"

text \<open>
  The first element satisfying \<open>P\<close> is changed by \<open>f\<close>, as \<^verbatim>\<open>find\<close> followed by
  assignments to the object found does. \<^verbatim>\<open>updateParticipantScore\<close> returns that
  participant in the source; the embedding returns the tournament after the call.
\<close>

fun update_first :: "('a \<Rightarrow> bool) \<Rightarrow> ('a \<Rightarrow> 'a) \<Rightarrow> 'a list \<Rightarrow> 'a list" where
  "update_first P f [] = []"
| "update_first P f (x # xs) = (if P x then f x # xs else x # update_first P f xs)"

definition updateParticipantScore ::
  "string \<Rightarrow> int \<Rightarrow> int \<Rightarrow> answer list \<Rightarrow> tournament \<Rightarrow> error + tournament" where
  "updateParticipantScore userId newScore newTimeSpent newAnswers t =
     (if findParticipant userId t = None then
        Inl (Error ''User is not a participant'')
      else Inr (t\<lparr>participants :=
                  update_first (\<lambda>p. user p = userId)
                    (\<lambda>p. p\<lparr>score := newScore, timeSpent := newTimeSpent, answers := newAnswers\<rparr>)
                    (participants t)\<rparr>))"

text \<open>\<^verbatim>\<open>canJoin(userId)\<close> returns the flag \<^verbatim>\<open>canJoin\<close> and the \<^verbatim>\<open>reason\<close>, absent on success.\<close>

definition canJoin :: "int \<Rightarrow> string \<Rightarrow> tournament \<Rightarrow> bool \<times> string option" where
  "canJoin now userId t =
     (if findParticipant userId t \<noteq> None then
        (False, Some ''Already a participant'')
      else if int (length (participants t)) \<ge> maxParticipants t then
        (False, Some ''Tournament is full'')
      else if \<not> isRegistrationOpen now t then
        (False, Some ''Registration is closed'')
      else if isPrivate t then
        (False, Some ''Private tournament'')
      else (True, None))"

text \<open>
  Quantities of the prize claims. \<open>paid_total\<close> is the sum of the participants' prizes.
  \<open>first_prize dist r\<close> is the prize of the entry that
  \<^verbatim>\<open>prizeDistribution.find(p => p.rank === r)\<close> returns, 0 when it returns none.
  \<open>matched_total\<close> follows the words of the specification: the sum of the
  \<^verbatim>\<open>prizeDistribution[].prize\<close> entries whose rank is the rank of some participant.
\<close>

definition paid_total :: "tournament \<Rightarrow> int" where
  "paid_total t = sum_list (map prize (participants t))"

definition first_prize :: "prize_info list \<Rightarrow> int \<Rightarrow> int" where
  "first_prize dist r =
     (case find (\<lambda>e. dist_rank e = r) dist of
        Some prizeInfo \<Rightarrow> dist_prize prizeInfo
      | None \<Rightarrow> 0)"

definition matched_total :: "tournament \<Rightarrow> int" where
  "matched_total t =
     sum_list (map dist_prize
       (filter (\<lambda>e. dist_rank e \<in> set (map rank (participants t))) (prizeDistribution t)))"

text \<open>The score of the first participant entry of a user, when there is one.\<close>

definition score_of :: "string \<Rightarrow> tournament \<Rightarrow> int option" where
  "score_of userId t = map_option score (findParticipant userId t)"

subsection \<open>Tournament routes\<close>

record transaction =
  tx_userId :: string
  tx_type :: string
  tx_category :: string
  tx_amount :: int
  balanceBefore :: int
  balanceAfter :: int
  tx_tournamentId :: string
  tx_status :: string

text \<open>
  The collections the routes read and write. A route returns its response and the
  database after the writes it made before responding.
\<close>

record db =
  tournaments :: "string \<rightharpoonup> tournament"
  users :: "string \<rightharpoonup> user"
  transactions :: "transaction list"

definition internal_tx ::
  "string \<Rightarrow> string \<Rightarrow> string \<Rightarrow> int \<Rightarrow> int \<Rightarrow> int \<Rightarrow> string \<Rightarrow> transaction" where
  "internal_tx uid ty cat amount before after tid =
     \<lparr>tx_userId = uid, tx_type = ty, tx_category = cat, tx_amount = amount,
      balanceBefore = before, balanceAfter = after, tx_tournamentId = tid,
      tx_status = ''completed''\<rparr>"



text \<open>
  \<^verbatim>\<open>POST /:id/join\<close>. A missing user makes \<^verbatim>\<open>user.playableBalance\<close> throw, which the
  handler's \<^verbatim>\<open>catch\<close> turns into the 500 response.
\<close>

definition joinRoute :: "int \<Rightarrow> string \<Rightarrow> string \<Rightarrow> db \<Rightarrow> (error + tournament) \<times> db" where
  "joinRoute now tid userId d =
     (case tournaments d tid of
        None \<Rightarrow> (Inl (Response 404 ''TOURNAMENT_NOT_FOUND'' ''Tournament not found''), d)
      | Some t \<Rightarrow>
          (case canJoin now userId t of
             (False, why) \<Rightarrow>
               (Inl (Response 400 ''CANNOT_JOIN'' (case why of Some m \<Rightarrow> m | None \<Rightarrow> [])), d)
           | (True, _) \<Rightarrow>
               (case users d userId of
                  None \<Rightarrow> (Inl (Response 500 ''INTERNAL_ERROR'' ''Failed to join tournament''), d)
                | Some u \<Rightarrow>
                    if playableBalance u < entryFee t then
                      (Inl (Response 400 ''INSUFFICIENT_BALANCE''
                              ''Insufficient balance to join tournament''), d)
                    else
                      (case addParticipant now userId t of
                         Inl e \<Rightarrow>
                           (Inl (Response 500 ''INTERNAL_ERROR'' ''Failed to join tournament''), d)
                       | Inr t' \<Rightarrow>
                           (let u' = snd (deductBalance (entryFee t') ''playable'' u)
                            in (Inr t',
                                d\<lparr>tournaments := (tournaments d)(tid \<mapsto> t'),
                                  users := (users d)(userId \<mapsto> u'),
                                  transactions := transactions d @
                                    [internal_tx userId ''tournament'' ''expense'' (entryFee t')
                                       (playableBalance u' + entryFee t') (playableBalance u')
                                       tid]\<rparr>))))))"


subsection \<open>Quiz security service\<close>

text \<open>
  The rules \<^verbatim>\<open>canTakeQuiz\<close> reads. The other entries of \<^verbatim>\<open>securityRules\<close> are read by
  the fraud heuristics only.
\<close>

record securityRules =
  maxDailyQuizzes :: int
  maxHourlyQuizzes :: int
  minTimeBetweenQuizzes :: int

definition defaultRules :: securityRules where
  "defaultRules =
     \<lparr>maxDailyQuizzes = 10, maxHourlyQuizzes = 3, minTimeBetweenQuizzes = 30000\<rparr>"

record userData =
  daily :: "int list"
  hourly :: "int list"
  lastAttempt :: int
  consecutiveHighScores :: int

record service =
  securityRules :: securityRules
  userAttempts :: "string \<rightharpoonup> userData"
  suspiciousUsers :: "string set"

text \<open>
  The returned object without its \<^verbatim>\<open>message\<close> text. \<open>resetTime\<close> is the millisecond
  value of the returned \<^verbatim>\<open>Date\<close>, \<open>None\<close> for \<^verbatim>\<open>null\<close>.
\<close>

record verdict =
  allowed :: bool
  reason :: "string option"
  resetTime :: "int option"

definition emptyUserData :: userData where
  "emptyUserData = \<lparr>daily = [], hourly = [], lastAttempt = 0, consecutiveHighScores = 0\<rparr>"

definition userKey :: "string \<Rightarrow> string \<Rightarrow> string" where
  "userKey userId difficulty = userId @ ''_'' @ difficulty"

text \<open>
  The two filtered windows of \<^verbatim>\<open>canTakeQuiz\<close>:
  \<^verbatim>\<open>userData.daily.filter(time => time >= todayStart)\<close> and
  \<^verbatim>\<open>userData.hourly.filter(time => time >= hourStart)\<close>.
\<close>

definition todayAttempts :: "int \<Rightarrow> userData \<Rightarrow> int list" where
  "todayAttempts todayStart data = filter (\<lambda>time. time \<ge> todayStart) (daily data)"

definition hourAttempts :: "int \<Rightarrow> userData \<Rightarrow> int list" where
  "hourAttempts hourStart data = filter (\<lambda>time. time \<ge> hourStart) (hourly data)"

text \<open>
  \<^verbatim>\<open>canTakeQuiz(userId, difficulty)\<close>. \<open>now\<close> is \<^verbatim>\<open>Date.now()\<close> and \<open>todayStart\<close> is
  \<^verbatim>\<open>new Date().setHours(0, 0, 0, 0)\<close>, the local midnight before \<open>now\<close>, which depends
  on the time zone of the process and is a parameter here. The call stores an empty
  record for a key it has not seen, so the service is returned too. Nothing in the body
  throws on these values, so the \<^verbatim>\<open>catch\<close> branch (\<^verbatim>\<open>SYSTEM_ERROR\<close>) has no
  counterpart.
\<close>

definition canTakeQuiz ::
  "int \<Rightarrow> int \<Rightarrow> string \<Rightarrow> string \<Rightarrow> service \<Rightarrow> verdict \<times> service" where
  "canTakeQuiz now todayStart userId difficulty svc =
     (let key = userKey userId difficulty;
          svc1 = (case userAttempts svc key of
                    None \<Rightarrow> svc\<lparr>userAttempts := (userAttempts svc)(key \<mapsto> emptyUserData)\<rparr>
                  | Some _ \<Rightarrow> svc);
          data = (case userAttempts svc1 key of Some r \<Rightarrow> r | None \<Rightarrow> emptyUserData);
          rules = securityRules svc1;
          hourStart = now - 60 * 60 * 1000
      in if int (length (todayAttempts todayStart data)) \<ge> maxDailyQuizzes rules then
           (\<lparr>allowed = False, reason = Some ''DAILY_LIMIT_EXCEEDED'',
             resetTime = Some (todayStart + 24 * 60 * 60 * 1000)\<rparr>, svc1)
         else if int (length (hourAttempts hourStart data)) \<ge> maxHourlyQuizzes rules then
           (\<lparr>allowed = False, reason = Some ''HOURLY_LIMIT_EXCEEDED'',
             resetTime = Some (hourStart + 60 * 60 * 1000)\<rparr>, svc1)
         else if lastAttempt data \<noteq> 0 \<and>
                 now - lastAttempt data < minTimeBetweenQuizzes rules then
           (let remainingTime = minTimeBetweenQuizzes rules - (now - lastAttempt data)
            in (\<lparr>allowed = False, reason = Some ''COOLDOWN_ACTIVE'',
                 resetTime = Some (now + remainingTime)\<rparr>, svc1))
         else if userId \<in> suspiciousUsers svc1 then
           (\<lparr>allowed = False, reason = Some ''SUSPICIOUS_ACTIVITY'', resetTime = None\<rparr>, svc1)
         else (\<lparr>allowed = True, reason = None, resetTime = None\<rparr>, svc1))"

subsection \<open>Example data\<close>

definition example_user :: user where
  "example_user = \<lparr>playableBalance = 100, bonusBalance = 5, balance = 105, totalEarned = 0\<rparr>"

text \<open>
  The completion scenario: three participants with scores 90, 90, 70 and times 20, 15,
  30, and the default 50/30/20 split of a prize pool of 100.
\<close>

definition example_participants :: "participant list" where
  "example_participants =
     [(new_participant ''alice'' 150)\<lparr>score := 90, timeSpent := 20\<rparr>,
      (new_participant ''bob'' 160)\<lparr>score := 90, timeSpent := 15\<rparr>,
      (new_participant ''carol'' 170)\<lparr>score := 70, timeSpent := 30\<rparr>]"

definition example_tournament :: tournament where
  "example_tournament =
     \<lparr>title = ''Cup'', entryFee = 20, maxParticipants = 3, minParticipants = 2,
      participants = example_participants, status = Active, phase = Quiz,
      registrationStart = 100, registrationEnd = 200, startTime = 300, endTime = 400,
      actualStartTime = Some 300, actualEndTime = None, winner = None,
      topParticipants = [],
      prizeDistribution =
        [\<lparr>dist_rank = 1, dist_prize = 50, percentage = 50\<rparr>,
         \<lparr>dist_rank = 2, dist_prize = 30, percentage = 30\<rparr>,
         \<lparr>dist_rank = 3, dist_prize = 20, percentage = 20\<rparr>],
      totalPrizes = 0, isPrivate = False\<rparr>"

definition upcoming_tournament :: tournament where
  "upcoming_tournament =
     example_tournament\<lparr>status := Upcoming, phase := Registration, actualStartTime := None\<rparr>"

text \<open>Two private tournaments: one with free places, one whose roster is full.\<close>

definition private_tournament :: tournament where
  "private_tournament = upcoming_tournament\<lparr>maxParticipants := 10, isPrivate := True\<rparr>"

definition full_private_tournament :: tournament where
  "full_private_tournament = upcoming_tournament\<lparr>isPrivate := True\<rparr>"

text \<open>The example tournament with two distribution entries for rank 1, and with none.\<close>

definition duplicate_rank_tournament :: tournament where
  "duplicate_rank_tournament =
     example_tournament\<lparr>prizeDistribution :=
       [\<lparr>dist_rank = 1, dist_prize = 50, percentage = 50\<rparr>,
        \<lparr>dist_rank = 1, dist_prize = 30, percentage = 30\<rparr>]\<rparr>"

definition no_prize_tournament :: tournament where
  "no_prize_tournament = example_tournament\<lparr>prizeDistribution := []\<rparr>"

definition example_users :: "string \<rightharpoonup> user" where
  "example_users =
     [''alice'' \<mapsto> example_user, ''bob'' \<mapsto> example_user, ''carol'' \<mapsto> example_user]"

definition example_db :: db where
  "example_db =
     \<lparr>tournaments = [''t1'' \<mapsto> example_tournament, ''t2'' \<mapsto> upcoming_tournament,
                     ''t3'' \<mapsto> private_tournament],
      users = example_users, transactions = []\<rparr>"

text \<open>
  A service with the default rules and one record, for user \<^verbatim>\<open>u1\<close> at difficulty
  \<^verbatim>\<open>easy\<close>. The examples read the clock at 1700000000000 ms, on the day that starts at
  1699920000000 ms.
\<close>

definition example_service :: "int list \<Rightarrow> int list \<Rightarrow> int \<Rightarrow> service" where
  "example_service ds hs lastTime =
     \<lparr>securityRules = defaultRules,
      userAttempts = [userKey ''u1'' ''easy'' \<mapsto>
        \<lparr>daily = ds, hourly = hs, lastAttempt = lastTime, consecutiveHighScores = 0\<rparr>],
      suspiciousUsers = {}\<rparr>"


definition recent_attempts :: "int list" where
  "recent_attempts = [1699999997000, 1699999998000, 1699999999000]"

section \<open>Properties\<close>

subsection \<open>Ledger\<close>

lemma addBalance_valid:
  "valid_user u \<Longrightarrow> 0 \<le> amount \<Longrightarrow> valid_user (addBalance amount type u)"
  by (simp add: valid_user_def addBalance_def Let_def)

lemma deductBalance_valid:
  "valid_user u \<Longrightarrow> valid_user (snd (deductBalance amount type u))"
  by (simp add: valid_user_def deductBalance_def Let_def)

lemma apply_ledger_op_valid:
  "valid_user u \<Longrightarrow> credit_amount_ok x \<Longrightarrow> valid_user (apply_ledger_op x u)"
  by (cases x) (simp_all add: addBalance_valid deductBalance_valid)

text \<open>
  C3. Starting from a user whose aggregate is the sum of its two buckets and whose
  three balances are non-negative, after every operation of any sequence of credits
  (of non-negative amounts) and debits (of any amount) the aggregate is again the sum
  of the buckets and none of the three balances is negative.
\<close>

theorem ledger_trace_valid:
  assumes "valid_user u" and "list_all credit_amount_ok ops"
  shows "list_all valid_user (ledger_trace ops u)"
  using assms
proof (induction ops arbitrary: u)
  case Nil
  show ?case by simp
next
  case (Cons x xs)
  from Cons.prems have step: "valid_user (apply_ledger_op x u)"
    by (simp add: apply_ledger_op_valid)
  from Cons.prems have "list_all credit_amount_ok xs" by simp
  with step have "list_all valid_user (ledger_trace xs (apply_ledger_op x u))"
    by (rule Cons.IH)
  with step show ?case by simp
qed

theorem ledger_trace_valid_witness:
  "valid_user example_user \<and>
   list_all credit_amount_ok [Debit 20 ''playable'', Credit 20 ''playable'', Debit 7 ''bonus''] \<and>
   list_all valid_user
     (ledger_trace [Debit 20 ''playable'', Credit 20 ''playable'', Debit 7 ''bonus''] example_user)"
  using ledger_trace_valid [of example_user
      "[Debit 20 ''playable'', Credit 20 ''playable'', Debit 7 ''bonus'']"]
  by (simp add: valid_user_def example_user_def)

text \<open>
  C4. \<^verbatim>\<open>deductBalance\<close> is all-or-nothing. When the amount exceeds the chosen bucket
  the call returns \<open>False\<close> and the user is unchanged, as it is after every call that
  returns \<open>False\<close>. The call succeeds when the bucket is \<^verbatim>\<open>'playable'\<close> or \<^verbatim>\<open>'bonus'\<close>
  and holds the amount; then, on a user whose aggregate is the sum of its buckets, the
  chosen bucket and the aggregate each decrease by the amount and the other bucket and
  \<open>totalEarned\<close> keep their values.
\<close>

theorem deductBalance_all_or_nothing:
  "(bucket_of type u < amount \<longrightarrow> deductBalance amount type u = (False, u)) \<and>
   (\<not> fst (deductBalance amount type u) \<longrightarrow> snd (deductBalance amount type u) = u) \<and>
   ((type = ''playable'' \<or> type = ''bonus'') \<and> amount \<le> bucket_of type u \<longrightarrow>
      fst (deductBalance amount type u)) \<and>
   (fst (deductBalance amount type u) \<and> balance u = playableBalance u + bonusBalance u \<longrightarrow>
      (type = ''playable'' \<or> type = ''bonus'') \<and>
      bucket_of type (snd (deductBalance amount type u)) = bucket_of type u - amount \<and>
      balance (snd (deductBalance amount type u)) = balance u - amount \<and>
      (type = ''playable'' \<longrightarrow>
         bonusBalance (snd (deductBalance amount type u)) = bonusBalance u) \<and>
      (type = ''bonus'' \<longrightarrow>
         playableBalance (snd (deductBalance amount type u)) = playableBalance u) \<and>
      totalEarned (snd (deductBalance amount type u)) = totalEarned u)"
  by (simp add: deductBalance_def bucket_of_def Let_def)

theorem deductBalance_all_or_nothing_witness:
  "bucket_of ''playable'' example_user < 101 \<and>
   deductBalance 101 ''playable'' example_user = (False, example_user) \<and>
   fst (deductBalance 100 ''playable'' example_user) \<and>
   balance example_user = playableBalance example_user + bonusBalance example_user \<and>
   bucket_of ''playable'' (snd (deductBalance 100 ''playable'' example_user)) = 0 \<and>
   balance (snd (deductBalance 100 ''playable'' example_user)) = 5 \<and>
   bonusBalance (snd (deductBalance 100 ''playable'' example_user)) = 5"
  using deductBalance_all_or_nothing [of "''playable''" example_user 101]
    deductBalance_all_or_nothing [of "''playable''" example_user 100]
  by (simp add: example_user_def bucket_of_def)

subsection \<open>Completing a tournament\<close>

lemma calculateRankings_state:
  "status (calculateRankings t) = status t"
  "phase (calculateRankings t) = phase t"
  "actualEndTime (calculateRankings t) = actualEndTime t"
  "prizeDistribution (calculateRankings t) = prizeDistribution t"
  by (simp_all add: calculateRankings_def Let_def split: list.split)

lemma distributePrizes_state:
  "status (distributePrizes t) = status t"
  "phase (distributePrizes t) = phase t"
  "actualEndTime (distributePrizes t) = actualEndTime t"
  "winner (distributePrizes t) = winner t"
  by (simp_all add: distributePrizes_def Let_def)








lemmas example_defs =
  example_tournament_def example_participants_def upcoming_tournament_def example_db_def
  example_users_def example_user_def new_participant_def private_tournament_def
  full_private_tournament_def duplicate_rank_tournament_def no_prize_tournament_def

lemmas tournament_defs =
  completeTournament_def calculateRankings_def distributePrizes_def compareParticipants_def
  award_def top_of_def Let_def


subsection \<open>Score updates\<close>

lemma find_update_first_same:
  assumes "\<And>x. P x \<Longrightarrow> P (f x)"
  shows "find P (update_first P f xs) = map_option f (find P xs)"
  using assms by (induction xs) simp_all

lemma find_update_first_other:
  assumes "\<And>x. Q (f x) = Q x" and "\<And>x. Q x \<Longrightarrow> \<not> P x"
  shows "find Q (update_first P f xs) = find Q xs"
  using assms by (induction xs) auto

lemma updateParticipantScore_score:
  assumes "findParticipant userId t \<noteq> None"
  shows "\<exists>t'. updateParticipantScore userId s ts as t = Inr t' \<and>
              score_of userId t' = Some s \<and>
              (\<forall>other. other \<noteq> userId \<longrightarrow> score_of other t' = score_of other t)"
proof -
  let ?f = "\<lambda>p. p\<lparr>score := s, timeSpent := ts, answers := as\<rparr>"
  let ?t' = "t\<lparr>participants := update_first (\<lambda>p. user p = userId) ?f (participants t)\<rparr>"
  have run: "updateParticipantScore userId s ts as t = Inr ?t'"
    using assms by (simp add: updateParticipantScore_def)
  have "find (\<lambda>p. user p = userId) (update_first (\<lambda>p. user p = userId) ?f (participants t))
        = map_option ?f (find (\<lambda>p. user p = userId) (participants t))"
    by (rule find_update_first_same) simp
  with assms have own: "score_of userId ?t' = Some s"
    by (auto simp: score_of_def findParticipant_def)
  have others: "score_of other ?t' = score_of other t" if "other \<noteq> userId" for other
  proof -
    have "find (\<lambda>p. user p = other) (update_first (\<lambda>p. user p = userId) ?f (participants t))
          = find (\<lambda>p. user p = other) (participants t)"
      by (rule find_update_first_other) (use that in simp_all)
    then show ?thesis by (simp add: score_of_def findParticipant_def)
  qed
  from run own others show ?thesis by blast
qed

text \<open>
  C6 (as amended). \<^verbatim>\<open>updateParticipantScore\<close> does not read the tournament's status
  and overwrites the score of the user's participant entry with the score it is given:
  for a participant it succeeds, the user's score afterwards is the supplied one, and
  every other user's score is unchanged. The score is therefore greater than or equal
  to its previous value exactly when the supplied score is.
\<close>

theorem updateParticipantScore_overwrites:
  assumes "score_of userId t = Some old"
  shows "\<exists>t'. updateParticipantScore userId s ts as t = Inr t' \<and>
              score_of userId t' = Some s \<and>
              (\<forall>other. other \<noteq> userId \<longrightarrow> score_of other t' = score_of other t) \<and>
              (\<exists>new. score_of userId t' = Some new \<and> (old \<le> new \<longleftrightarrow> old \<le> s))"
proof -
  from assms have "findParticipant userId t \<noteq> None"
    by (auto simp: score_of_def)
  then obtain t' where "updateParticipantScore userId s ts as t = Inr t'"
    and "score_of userId t' = Some s"
    and "\<forall>other. other \<noteq> userId \<longrightarrow> score_of other t' = score_of other t"
    using updateParticipantScore_score by blast
  then show ?thesis by auto
qed

theorem updateParticipantScore_overwrites_witness:
  "score_of ''alice'' example_tournament = Some 90 \<and>
   (\<exists>t'. updateParticipantScore ''alice'' 95 25 [] example_tournament = Inr t' \<and>
         score_of ''alice'' t' = Some 95 \<and> score_of ''bob'' t' = Some 90)"
proof -
  have a: "score_of ''alice'' example_tournament = Some 90"
    by (simp add: score_of_def findParticipant_def example_defs)
  have b: "score_of ''bob'' example_tournament = Some 90"
    by (simp add: score_of_def findParticipant_def example_defs)
  from updateParticipantScore_overwrites [OF a, of 95 25 "[]"] a b
  show ?thesis by auto
qed

theorem updateParticipantScore_decreases_counterexample:
  "status example_tournament = Active \<and>
   score_of ''alice'' example_tournament = Some 90 \<and>
   map_sum id (score_of ''alice'')
     (updateParticipantScore ''alice'' 10 25 [] example_tournament) = Inr (Some 10)"
  by (simp add: updateParticipantScore_def score_of_def findParticipant_def example_defs)

subsection \<open>Credits and the refund of the leave route\<close>





subsection \<open>Joining a private tournament\<close>

text \<open>
  C10 (as amended). On a private tournament \<^verbatim>\<open>canJoin\<close> returns \<open>canJoin = false\<close> for
  every user, and the join route answers \<^verbatim>\<open>CANNOT_JOIN\<close> without writing anything. The
  reason is \<^verbatim>\<open>'Private tournament'\<close> exactly when the user is not a participant and
  registration is open (which includes that the roster has space); otherwise the reason
  is that of the earlier check that failed.
\<close>

theorem canJoin_private:
  assumes "isPrivate t"
  shows "fst (canJoin now userId t) = False \<and>
         (snd (canJoin now userId t) = Some ''Private tournament'' \<longleftrightarrow>
            findParticipant userId t = None \<and> isRegistrationOpen now t) \<and>
         (tournaments d tid = Some t \<longrightarrow>
            joinRoute now tid userId d =
              (Inl (Response 400 ''CANNOT_JOIN''
                      (case snd (canJoin now userId t) of Some m \<Rightarrow> m | None \<Rightarrow> [])), d))"
proof -
  have open_space: "isRegistrationOpen now t \<Longrightarrow> int (length (participants t)) < maxParticipants t"
    by (simp add: isRegistrationOpen_def)
  have flag: "fst (canJoin now userId t) = False"
    using assms by (simp add: canJoin_def)
  have why: "snd (canJoin now userId t) = Some ''Private tournament'' \<longleftrightarrow>
            findParticipant userId t = None \<and> isRegistrationOpen now t"
    using assms open_space by (auto simp: canJoin_def)
  have route: "joinRoute now tid userId d =
              (Inl (Response 400 ''CANNOT_JOIN''
                      (case snd (canJoin now userId t) of Some m \<Rightarrow> m | None \<Rightarrow> [])), d)"
    if "tournaments d tid = Some t"
    using that flag by (cases "canJoin now userId t") (simp add: joinRoute_def)
  from flag why route show ?thesis by blast
qed

theorem canJoin_private_witness:
  "isPrivate private_tournament \<and>
   fst (canJoin 150 ''dave'' private_tournament) = False \<and>
   snd (canJoin 150 ''dave'' private_tournament) = Some ''Private tournament'' \<and>
   findParticipant ''dave'' private_tournament = None \<and>
   isRegistrationOpen 150 private_tournament \<and>
   tournaments example_db ''t3'' = Some private_tournament \<and>
   joinRoute 150 ''t3'' ''dave'' example_db =
     (Inl (Response 400 ''CANNOT_JOIN'' ''Private tournament''), example_db)"
proof -
  have a: "isPrivate private_tournament"
    by (simp add: example_defs)
  have b: "findParticipant ''dave'' private_tournament = None"
    by (simp add: findParticipant_def example_defs)
  have c: "isRegistrationOpen 150 private_tournament"
    by (simp add: isRegistrationOpen_def example_defs)
  have e: "tournaments example_db ''t3'' = Some private_tournament"
    by (simp add: example_db_def)
  from canJoin_private [OF a, of 150 "''dave''" example_db "''t3''"] a b c e
  show ?thesis by simp
qed

text \<open>
  The claim as stated fails on the reason: for a user who is not a participant, a
  private tournament whose roster is full answers \<^verbatim>\<open>'Tournament is full'\<close>, and one
  whose registration window has passed answers \<^verbatim>\<open>'Registration is closed'\<close>.
\<close>

theorem canJoin_private_reason_counterexample:
  "isPrivate full_private_tournament \<and>
   findParticipant ''dave'' full_private_tournament = None \<and>
   canJoin 150 ''dave'' full_private_tournament = (False, Some ''Tournament is full'') \<and>
   isPrivate private_tournament \<and>
   findParticipant ''dave'' private_tournament = None \<and>
   canJoin 250 ''dave'' private_tournament = (False, Some ''Registration is closed'')"
  by (simp add: canJoin_def findParticipant_def isRegistrationOpen_def example_defs)

subsection \<open>Rate limiter\<close>

lemma canTakeQuiz_known:
  assumes "userAttempts svc (userKey userId difficulty) = Some data"
  shows "canTakeQuiz now todayStart userId difficulty svc =
     (if int (length (todayAttempts todayStart data)) \<ge> maxDailyQuizzes (securityRules svc) then
        \<lparr>allowed = False, reason = Some ''DAILY_LIMIT_EXCEEDED'',
         resetTime = Some (todayStart + 86400000)\<rparr>
      else if int (length (hourAttempts (now - 3600000) data))
                \<ge> maxHourlyQuizzes (securityRules svc) then
        \<lparr>allowed = False, reason = Some ''HOURLY_LIMIT_EXCEEDED'', resetTime = Some now\<rparr>
      else if lastAttempt data \<noteq> 0 \<and>
              now - lastAttempt data < minTimeBetweenQuizzes (securityRules svc) then
        \<lparr>allowed = False, reason = Some ''COOLDOWN_ACTIVE'',
         resetTime = Some (lastAttempt data + minTimeBetweenQuizzes (securityRules svc))\<rparr>
      else if userId \<in> suspiciousUsers svc then
        \<lparr>allowed = False, reason = Some ''SUSPICIOUS_ACTIVITY'', resetTime = None\<rparr>
      else \<lparr>allowed = True, reason = None, resetTime = None\<rparr>, svc)"
  using assms by (simp add: canTakeQuiz_def Let_def)


lemma example_service_record:
  "userAttempts (example_service ds hs lastTime) (userKey ''u1'' ''easy'') =
     Some \<lparr>daily = ds, hourly = hs, lastAttempt = lastTime, consecutiveHighScores = 0\<rparr>"
  by (simp add: example_service_def)

lemma example_service_rules:
  "maxDailyQuizzes (securityRules (example_service ds hs lastTime)) = 10"
  "maxHourlyQuizzes (securityRules (example_service ds hs lastTime)) = 3"
  "minTimeBetweenQuizzes (securityRules (example_service ds hs lastTime)) = 30000"
  "suspiciousUsers (example_service ds hs lastTime) = {}"
  by (simp_all add: example_service_def defaultRules_def)


text \<open>
  The reset time returned with each reason, for a user with a stored record: the day's
  end for the daily cap, the end of the cooldown for the cooldown, none for a
  suspicious user, and the time of the call itself for the hourly cap, because
  \<^verbatim>\<open>hourStart + 60 * 60 * 1000\<close> is \<^verbatim>\<open>now\<close>.
\<close>

lemma canTakeQuiz_resetTime:
  assumes "userAttempts svc (userKey userId difficulty) = Some data"
  shows
  "(reason (fst (canTakeQuiz now todayStart userId difficulty svc)) =
      Some ''DAILY_LIMIT_EXCEEDED'' \<longrightarrow>
    resetTime (fst (canTakeQuiz now todayStart userId difficulty svc)) =
      Some (todayStart + 24 * 60 * 60 * 1000)) \<and>
   (reason (fst (canTakeQuiz now todayStart userId difficulty svc)) =
      Some ''HOURLY_LIMIT_EXCEEDED'' \<longrightarrow>
    resetTime (fst (canTakeQuiz now todayStart userId difficulty svc)) = Some now) \<and>
   (reason (fst (canTakeQuiz now todayStart userId difficulty svc)) =
      Some ''COOLDOWN_ACTIVE'' \<longrightarrow>
    resetTime (fst (canTakeQuiz now todayStart userId difficulty svc)) =
      Some (lastAttempt data + minTimeBetweenQuizzes (securityRules svc))) \<and>
   (reason (fst (canTakeQuiz now todayStart userId difficulty svc)) =
      Some ''SUSPICIOUS_ACTIVITY'' \<longrightarrow>
    resetTime (fst (canTakeQuiz now todayStart userId difficulty svc)) = None)"
  by (simp add: canTakeQuiz_known [OF assms])

text \<open>
  C9, at the failing input. User \<^verbatim>\<open>u1\<close> made three attempts 3, 2 and 1 seconds before
  the call at 1700000000000 ms. The call is denied with \<^verbatim>\<open>HOURLY_LIMIT_EXCEEDED\<close> and a
  reset time equal to the time of the call. The hourly cap does not clear then: a call
  3597000 ms later is still denied for the same reason, and the first call that is
  allowed comes one millisecond after that, when the oldest attempt leaves the window.
\<close>

theorem canTakeQuiz_hourly_resetTime_is_now:
  "fst (canTakeQuiz 1700000000000 1699920000000 ''u1'' ''easy''
          (example_service recent_attempts recent_attempts 1699999999000)) =
     \<lparr>allowed = False, reason = Some ''HOURLY_LIMIT_EXCEEDED'',
      resetTime = Some 1700000000000\<rparr> \<and>
   reason (fst (canTakeQuiz 1700003597000 1699920000000 ''u1'' ''easy''
          (example_service recent_attempts recent_attempts 1699999999000))) =
     Some ''HOURLY_LIMIT_EXCEEDED'' \<and>
   allowed (fst (canTakeQuiz 1700003597001 1699920000000 ''u1'' ''easy''
          (example_service recent_attempts recent_attempts 1699999999000)))"
  by (simp add: canTakeQuiz_known [OF example_service_record] example_service_rules
      todayAttempts_def hourAttempts_def recent_attempts_def)

subsection \<open>Ranking\<close>

text \<open>The order the comparator induces: \<open>a\<close> may stand before \<open>b\<close>.\<close>

lemma compareParticipants_le:
  "compareParticipants a b \<le> 0 \<longleftrightarrow>
     score b < score a \<or> (score a = score b \<and> timeSpent a \<le> timeSpent b)"
  by (auto simp: compareParticipants_def)

lemma compareParticipants_total:
  "compareParticipants a b \<le> 0 \<or> compareParticipants b a \<le> 0"
  by (auto simp: compareParticipants_le)

lemma compareParticipants_trans:
  "compareParticipants a b \<le> 0 \<Longrightarrow> compareParticipants b c \<le> 0 \<Longrightarrow>
   compareParticipants a c \<le> 0"
  by (auto simp: compareParticipants_le)

lemma mset_sort_insert: "mset (sort_insert cmp x ys) = add_mset x (mset ys)"
  by (induction ys) simp_all

lemma mset_array_sort: "mset (array_sort cmp xs) = mset xs"
  by (induction xs) (simp_all add: mset_sort_insert)

lemma set_sort_insert: "set (sort_insert cmp x ys) = insert x (set ys)"
  using mset_sort_insert [of cmp x ys, THEN arg_cong, of set_mset] by simp

lemma set_array_sort: "set (array_sort cmp xs) = set xs"
  using mset_array_sort [of cmp xs, THEN arg_cong, of set_mset] by simp

lemma length_array_sort: "length (array_sort cmp xs) = length xs"
  using mset_array_sort [of cmp xs, THEN arg_cong, of size] by simp

lemma sorted_sort_insert:
  assumes "sorted_wrt (\<lambda>a b. compareParticipants a b \<le> 0) ys"
  shows "sorted_wrt (\<lambda>a b. compareParticipants a b \<le> 0)
           (sort_insert compareParticipants x ys)"
  using assms
proof (induction ys)
  case Nil
  show ?case by simp
next
  case (Cons y ys)
  show ?case
  proof (cases "compareParticipants x y \<le> 0")
    case True
    with Cons.prems have "\<forall>z\<in>set ys. compareParticipants x z \<le> 0"
      by (auto intro: compareParticipants_trans)
    with True Cons.prems show ?thesis by simp
  next
    case False
    then have "compareParticipants y x \<le> 0"
      using compareParticipants_total [of x y] by simp
    with False Cons show ?thesis
      by (simp add: set_sort_insert)
  qed
qed

lemma sorted_array_sort:
  "sorted_wrt (\<lambda>a b. compareParticipants a b \<le> 0) (array_sort compareParticipants xs)"
  by (induction xs) (simp_all add: sorted_sort_insert)

lemma length_assignRanks: "length (assignRanks k ps) = length ps"
  by (induction ps arbitrary: k) simp_all

lemma assignRanks_nth:
  "i < length ps \<Longrightarrow> assignRanks k ps ! i = (ps ! i)\<lparr>rank := int (k + i) + 1\<rparr>"
proof (induction ps arbitrary: k i)
  case Nil
  then show ?case by simp
next
  case (Cons p ps)
  show ?case
  proof (cases i)
    case 0
    then show ?thesis by simp
  next
    case (Suc j)
    with Cons.prems have "j < length ps" by simp
    then have "assignRanks (Suc k) ps ! j = (ps ! j)\<lparr>rank := int (Suc k + j) + 1\<rparr>"
      by (rule Cons.IH)
    with Suc show ?thesis by simp
  qed
qed

lemma map_rank_assignRanks:
  "map rank (assignRanks k ps) = [int k + 1..int k + int (length ps)]"
proof (induction ps arbitrary: k)
  case Nil
  show ?case by simp
next
  case (Cons p ps)
  have "[int k + 1..int k + int (length (p # ps))] =
        (int k + 1) # [int (Suc k) + 1..int (Suc k) + int (length ps)]"
    by (subst upto_rec1) (simp_all add: algebra_simps)
  with Cons.IH [of "Suc k"] show ?case by simp
qed

lemma map_prize_assignRanks: "map prize (assignRanks k ps) = map prize ps"
  by (induction ps arbitrary: k) simp_all

lemma award_keeps:
  "rank (award dist p) = rank p" "score (award dist p) = score p"
  "timeSpent (award dist p) = timeSpent p" "user (award dist p) = user p"
  by (simp_all add: award_def split: option.split)

lemma map_award_Nil: "map (award []) ps = ps"
  by (induction ps) (simp_all add: award_def)

lemma rank_award: "rank \<circ> award dist = rank"
  by (simp add: fun_eq_iff award_keeps)

text \<open>
  The participants of a completed tournament. With an empty distribution
  \<^verbatim>\<open>distributePrizes\<close> returns at once, which is what awarding from the empty list does.
\<close>

lemma completeTournament_participants:
  assumes "completeTournament now t = Inr t'"
  shows "participants t' =
     map (award (prizeDistribution t))
       (assignRanks 0 (array_sort compareParticipants (participants t)))"
proof -
  from assms have act: "status t = Active"
    by (simp add: completeTournament_def split: if_splits)
  let ?t1 = "calculateRankings
     (t\<lparr>status := Completed, phase := Results, actualEndTime := Some now\<rparr>)"
  have ranked: "participants ?t1 =
      assignRanks 0 (array_sort compareParticipants (participants t))"
    by (simp add: calculateRankings_def Let_def split: list.split)
  have dist: "prizeDistribution ?t1 = prizeDistribution t"
    by (simp add: calculateRankings_state)
  from assms act have "t' = distributePrizes ?t1"
    by (simp add: completeTournament_def)
  then show ?thesis
    by (simp add: distributePrizes_def Let_def ranked dist map_award_Nil)
qed

lemma completeTournament_length:
  assumes "completeTournament now t = Inr t'"
  shows "length (participants t') = length (participants t)"
  by (simp add: completeTournament_participants [OF assms] length_assignRanks length_array_sort)

lemma completeTournament_nth:
  assumes "completeTournament now t = Inr t'" and "i < length (participants t)"
  shows "rank (participants t' ! i) = int i + 1"
    and "score (participants t' ! i) =
           score (array_sort compareParticipants (participants t) ! i)"
    and "timeSpent (participants t' ! i) =
           timeSpent (array_sort compareParticipants (participants t) ! i)"
    and "user (participants t' ! i) =
           user (array_sort compareParticipants (participants t) ! i)"
  using assms(2)
  by (simp_all add: completeTournament_participants [OF assms(1)] length_assignRanks
      length_array_sort assignRanks_nth award_keeps)

lemma completeTournament_ranks:
  assumes "completeTournament now t = Inr t'"
  shows "map rank (participants t') = [1..int (length (participants t))]"
  using map_rank_assignRanks [of 0 "array_sort compareParticipants (participants t)"]
  by (simp add: completeTournament_participants [OF assms] rank_award length_array_sort)

lemma completeTournament_winner:
  assumes "completeTournament now t = Inr t'"
  shows "winner t' = (case participants t' of [] \<Rightarrow> winner t | p # _ \<Rightarrow> Some (user p))"
proof -
  let ?r = "assignRanks 0 (array_sort compareParticipants (participants t))"
  have w: "winner t' = (case ?r of [] \<Rightarrow> winner t | p # _ \<Rightarrow> Some (user p))"
    using assms
    by (auto simp: completeTournament_def calculateRankings_def distributePrizes_state Let_def
        split: if_splits list.splits)
  show ?thesis
    by (cases ?r) (simp_all add: w completeTournament_participants [OF assms] award_keeps)
qed

lemma entries_assignRanks:
  "map (\<lambda>p. (user p, score p, timeSpent p)) (assignRanks k ps) =
   map (\<lambda>p. (user p, score p, timeSpent p)) ps"
  by (induction ps arbitrary: k) simp_all

lemma entries_award:
  "map (\<lambda>p. (user p, score p, timeSpent p)) (map (award dist) ps) =
   map (\<lambda>p. (user p, score p, timeSpent p)) ps"
  by (induction ps) (simp_all add: award_keeps)

lemma completeTournament_entries:
  assumes "completeTournament now t = Inr t'"
  shows "mset (map (\<lambda>p. (user p, score p, timeSpent p)) (participants t')) =
         mset (map (\<lambda>p. (user p, score p, timeSpent p)) (participants t))"
proof -
  have "map (\<lambda>p. (user p, score p, timeSpent p)) (participants t') =
        map (\<lambda>p. (user p, score p, timeSpent p))
          (array_sort compareParticipants (participants t))"
    by (simp only: completeTournament_participants [OF assms] entries_award
        entries_assignRanks)
  then show ?thesis
    by (simp only: mset_map mset_array_sort)
qed

text \<open>Two positions of a completed tournament, the earlier one first in the order.\<close>

lemma completeTournament_order:
  assumes fin: "completeTournament now t = Inr t'"
    and ij: "i < j" "j < length (participants t)"
  shows "score (participants t' ! j) < score (participants t' ! i) \<or>
         (score (participants t' ! i) = score (participants t' ! j) \<and>
          timeSpent (participants t' ! i) \<le> timeSpent (participants t' ! j))"
proof -
  let ?s = "array_sort compareParticipants (participants t)"
  from ij have "j < length ?s" by (simp add: length_array_sort)
  with ij(1) sorted_array_sort [of "participants t"]
  have "compareParticipants (?s ! i) (?s ! j) \<le> 0"
    by (simp add: sorted_wrt_iff_nth_less)
  moreover from ij have "i < length (participants t)" by simp
  ultimately show ?thesis
    using ij(2) by (simp add: compareParticipants_le completeTournament_nth [OF fin])
qed

text \<open>
  C2. After a successful \<^verbatim>\<open>completeTournament\<close> on a tournament with \<open>N\<close> participants
  the ranks, read along the roster, are \<open>1, \<dots>, N\<close>, and the roster holds the same
  users with the same scores and times as before. Of two participants the one with the
  higher score has the lower rank, and so has, at equal scores, the one with the lower
  \<open>timeSpent\<close>. The first participant has rank 1 and is the winner; with no participant
  the winner is left as it was.
\<close>

theorem completeTournament_ranking:
  assumes "completeTournament now t = Inr t'"
  shows "map rank (participants t') = [1..int (length (participants t))] \<and>
         mset (map (\<lambda>p. (user p, score p, timeSpent p)) (participants t')) =
           mset (map (\<lambda>p. (user p, score p, timeSpent p)) (participants t)) \<and>
         (\<forall>A\<in>set (participants t'). \<forall>B\<in>set (participants t').
            (score B < score A \<longrightarrow> rank A < rank B) \<and>
            (score A = score B \<and> timeSpent A < timeSpent B \<longrightarrow> rank A < rank B)) \<and>
         (case participants t' of
            [] \<Rightarrow> winner t' = winner t
          | w # _ \<Rightarrow> rank w = 1 \<and> winner t' = Some (user w))"
proof -
  note len = completeTournament_length [OF assms]
  have pair: "(score B < score A \<longrightarrow> rank A < rank B) \<and>
              (score A = score B \<and> timeSpent A < timeSpent B \<longrightarrow> rank A < rank B)"
    if "A \<in> set (participants t')" and "B \<in> set (participants t')" for A B
  proof -
    from that len obtain i j where i: "i < length (participants t)" "participants t' ! i = A"
      and j: "j < length (participants t)" "participants t' ! j = B"
      by (auto simp: in_set_conv_nth)
    have ranks: "rank A = int i + 1" "rank B = int j + 1"
      using completeTournament_nth(1) [OF assms] i j by auto
    consider "i < j" | "i = j" | "j < i" by linarith
    then show ?thesis
    proof cases
      case 1
      with ranks show ?thesis by simp
    next
      case 2
      with i(2) j(2) have "A = B" by simp
      then show ?thesis by simp
    next
      case 3
      from completeTournament_order [OF assms 3 i(1)]
      have "score A < score B \<or> (score B = score A \<and> timeSpent B \<le> timeSpent A)"
        by (simp only: i(2) j(2))
      then show ?thesis by auto
    qed
  qed
  have first: "(case participants t' of
            [] \<Rightarrow> winner t' = winner t
          | w # _ \<Rightarrow> rank w = 1 \<and> winner t' = Some (user w))"
  proof (cases "participants t'")
    case Nil
    then show ?thesis by (simp add: completeTournament_winner [OF assms])
  next
    case (Cons w ws)
    with len have "0 < length (participants t)" by auto
    then have "rank (participants t' ! 0) = 1"
      using completeTournament_nth(1) [OF assms, of 0] by simp
    with Cons show ?thesis by (simp add: completeTournament_winner [OF assms])
  qed
  from completeTournament_ranks [OF assms] completeTournament_entries [OF assms] pair first
  show ?thesis by blast
qed

theorem completeTournament_ranking_witness:
  "completeTournament 500 example_tournament =
     Inr (projr (completeTournament 500 example_tournament)) \<and>
   map user (participants (projr (completeTournament 500 example_tournament))) =
     [''bob'', ''alice'', ''carol''] \<and>
   map rank (participants (projr (completeTournament 500 example_tournament))) = [1, 2, 3] \<and>
   winner (projr (completeTournament 500 example_tournament)) = Some ''bob''"
proof -
  have run: "completeTournament 500 example_tournament =
     Inr (projr (completeTournament 500 example_tournament))"
    by (simp add: completeTournament_def example_tournament_def)
  have who: "map user (participants (projr (completeTournament 500 example_tournament))) =
     [''bob'', ''alice'', ''carol'']"
    by (simp add: tournament_defs example_defs)
  have "int (length (participants example_tournament)) = 3"
    by (simp add: example_defs)
  moreover have "[1..3::int] = [1, 2, 3]"
    by (simp add: upto.simps)
  ultimately have n: "[1..int (length (participants example_tournament))] = [1, 2, 3]"
    by simp
  note ranking = completeTournament_ranking [OF run]
  from ranking n
  have ranks: "map rank (participants (projr (completeTournament 500 example_tournament))) =
      [1, 2, 3]"
    by simp
  from who obtain w ws
    where "participants (projr (completeTournament 500 example_tournament)) = w # ws"
      and "user w = ''bob''"
    by (cases "participants (projr (completeTournament 500 example_tournament))") auto
  with ranking
  have "winner (projr (completeTournament 500 example_tournament)) = Some ''bob''"
    by simp
  with run who ranks show ?thesis by blast
qed

subsection \<open>Prizes\<close>

lemma first_prize_Nil: "first_prize [] r = 0"
  by (simp add: first_prize_def)

lemma first_prize_Cons:
  "first_prize (e # dist) r = (if dist_rank e = r then dist_prize e else first_prize dist r)"
  by (simp add: first_prize_def)

lemma first_prize_absent: "r \<notin> set (map dist_rank dist) \<Longrightarrow> first_prize dist r = 0"
  by (induction dist) (auto simp: first_prize_Nil first_prize_Cons)

lemma prize_award: "prize p = 0 \<Longrightarrow> prize (award dist p) = first_prize dist (rank p)"
  by (simp add: award_def first_prize_def split: option.split)

lemma map_prize_award:
  "\<forall>p\<in>set ps. prize p = 0 \<Longrightarrow>
   map prize (map (award dist) ps) = map (first_prize dist) (map rank ps)"
  by (induction ps) (simp_all add: prize_award)

lemma prize_zero_ranked:
  assumes "\<forall>p\<in>set ps. prize p = 0"
  shows "\<forall>p\<in>set (assignRanks k (array_sort cmp ps)). prize p = 0"
proof -
  have "set (map prize (assignRanks k (array_sort cmp ps))) = prize ` set ps"
    by (simp only: map_prize_assignRanks set_map set_array_sort)
  with assms show ?thesis by auto
qed

lemma sum_list_single:
  "distinct rs \<Longrightarrow>
   sum_list (map (\<lambda>r. if k = r then c else 0) rs) = (if k \<in> set rs then c else (0::int))"
  by (induction rs) auto

lemma first_prize_sum:
  assumes "distinct (map dist_rank dist)" and "distinct rs"
  shows "sum_list (map (first_prize dist) rs) =
         sum_list (map dist_prize (filter (\<lambda>e. dist_rank e \<in> set rs) dist))"
  using assms(1)
proof (induction dist)
  case Nil
  show ?case by (simp add: first_prize_Nil)
next
  case (Cons e dist)
  then have absent: "dist_rank e \<notin> set (map dist_rank dist)"
    and rest: "distinct (map dist_rank dist)" by simp_all
  have split: "first_prize (e # dist) r =
      (if dist_rank e = r then dist_prize e else 0) + first_prize dist r" for r
    using first_prize_absent [OF absent] by (auto simp: first_prize_Cons)
  have "sum_list (map (first_prize (e # dist)) rs) =
        sum_list (map (\<lambda>r. if dist_rank e = r then dist_prize e else 0) rs) +
        sum_list (map (first_prize dist) rs)"
  proof -
    have "first_prize (e # dist) =
        (\<lambda>r. (if dist_rank e = r then dist_prize e else 0) + first_prize dist r)"
      by (rule ext) (rule split)
    then show ?thesis by (simp only: sum_list_addf)
  qed
  also have "\<dots> = (if dist_rank e \<in> set rs then dist_prize e else 0) +
        sum_list (map dist_prize (filter (\<lambda>e. dist_rank e \<in> set rs) dist))"
    by (simp only: sum_list_single [OF assms(2)] Cons.IH [OF rest])
  finally show ?case by simp
qed

lemma completeTournament_prizeDistribution:
  assumes "completeTournament now t = Inr t'"
  shows "prizeDistribution t' = prizeDistribution t"
  using assms
  by (auto simp: completeTournament_def distributePrizes_def calculateRankings_state Let_def
      split: if_splits)

lemma completeTournament_paid:
  assumes "completeTournament now t = Inr t'" and "\<forall>p\<in>set (participants t). prize p = 0"
  shows "map prize (participants t') =
         map (first_prize (prizeDistribution t)) [1..int (length (participants t))]"
proof -
  let ?r = "assignRanks 0 (array_sort compareParticipants (participants t))"
  have zero: "\<forall>p\<in>set ?r. prize p = 0"
    using assms(2) by (rule prize_zero_ranked)
  have "map rank ?r = [1..int (length (participants t))]"
    using map_rank_assignRanks [of 0 "array_sort compareParticipants (participants t)"]
    by (simp add: length_array_sort)
  with map_prize_award [OF zero, of "prizeDistribution t"]
  show ?thesis
    by (simp only: completeTournament_participants [OF assms(1)])
qed

text \<open>
  C5 (as amended). Let the participants' prizes be 0 before completion, as the schema
  default makes them. After a successful completion of a tournament with \<open>N\<close>
  participants the sum of the participants' prizes is the sum, over the ranks
  \<open>1, \<dots>, N\<close>, of the prize of the first \<open>prizeDistribution\<close> entry with that rank (0 for
  a rank without entry). When no two entries of \<open>prizeDistribution\<close> have the same rank
  this is the sum of the entries whose rank is the rank of a participant. With an empty
  \<open>prizeDistribution\<close> completion succeeds and every prize stays 0.
\<close>

theorem distributePrizes_total:
  assumes "completeTournament now t = Inr t'" and "\<forall>p\<in>set (participants t). prize p = 0"
  shows "paid_total t' =
           sum_list (map (first_prize (prizeDistribution t))
             [1..int (length (participants t))]) \<and>
         (distinct (map dist_rank (prizeDistribution t)) \<longrightarrow>
            paid_total t' = matched_total t') \<and>
         (prizeDistribution t = [] \<longrightarrow>
            paid_total t' = 0 \<and> (\<forall>p\<in>set (participants t'). prize p = 0))"
proof -
  note paid = completeTournament_paid [OF assms]
  have total: "paid_total t' =
      sum_list (map (first_prize (prizeDistribution t)) [1..int (length (participants t))])"
    by (simp only: paid_total_def paid)
  have matched: "paid_total t' = matched_total t'"
    if "distinct (map dist_rank (prizeDistribution t))"
  proof -
    have "matched_total t' =
        sum_list (map dist_prize
          (filter (\<lambda>e. dist_rank e \<in> set [1..int (length (participants t))])
             (prizeDistribution t)))"
      by (simp only: matched_total_def completeTournament_ranks [OF assms(1)]
          completeTournament_prizeDistribution [OF assms(1)])
    also have "\<dots> = sum_list (map (first_prize (prizeDistribution t))
        [1..int (length (participants t))])"
      using first_prize_sum [OF that, of "[1..int (length (participants t))]"] by simp
    finally show ?thesis by (simp only: total)
  qed
  have none: "paid_total t' = 0 \<and> (\<forall>p\<in>set (participants t'). prize p = 0)"
    if "prizeDistribution t = []"
  proof -
    from paid that have z: "map prize (participants t') =
        map (\<lambda>r. 0) [1..int (length (participants t))]"
      by (simp add: first_prize_Nil)
    then have "set (map prize (participants t')) \<subseteq> {0}" by auto
    then have "\<forall>p\<in>set (participants t'). prize p = 0" by auto
    moreover from z have "paid_total t' = 0" by (simp add: paid_total_def)
    ultimately show ?thesis by simp
  qed
  from total matched none show ?thesis by blast
qed

theorem distributePrizes_total_witness:
  "completeTournament 500 example_tournament =
     Inr (projr (completeTournament 500 example_tournament)) \<and>
   map prize (participants example_tournament) = [0, 0, 0] \<and>
   distinct (map dist_rank (prizeDistribution example_tournament)) \<and>
   paid_total (projr (completeTournament 500 example_tournament)) = 100 \<and>
   matched_total (projr (completeTournament 500 example_tournament)) = 100 \<and>
   completeTournament 500 no_prize_tournament =
     Inr (projr (completeTournament 500 no_prize_tournament)) \<and>
   prizeDistribution no_prize_tournament = [] \<and>
   paid_total (projr (completeTournament 500 no_prize_tournament)) = 0"
proof -
  have run: "completeTournament 500 example_tournament =
     Inr (projr (completeTournament 500 example_tournament))"
    by (simp add: completeTournament_def example_tournament_def)
  have run0: "completeTournament 500 no_prize_tournament =
     Inr (projr (completeTournament 500 no_prize_tournament))"
    by (simp add: completeTournament_def example_defs)
  have zeros: "map prize (participants example_tournament) = [0, 0, 0]"
    "map prize (participants no_prize_tournament) = [0, 0, 0]"
    by (simp_all add: example_defs)
  have z: "\<forall>p\<in>set (participants example_tournament). prize p = 0"
    "\<forall>p\<in>set (participants no_prize_tournament). prize p = 0"
    by (simp_all add: example_defs)
  have dist: "distinct (map dist_rank (prizeDistribution example_tournament))"
    by (simp add: example_defs)
  have none: "prizeDistribution no_prize_tournament = []"
    by (simp add: example_defs)
  have "int (length (participants example_tournament)) = 3"
    by (simp add: example_defs)
  moreover have "[1..3::int] = [1, 2, 3]"
    by (simp add: upto.simps)
  ultimately have
    sum: "sum_list (map (first_prize (prizeDistribution example_tournament))
       [1..int (length (participants example_tournament))]) = 100"
    by (simp add: first_prize_def example_defs)
  note total = distributePrizes_total [OF run z(1)]
  from total sum
  have paid: "paid_total (projr (completeTournament 500 example_tournament)) = 100"
    by simp
  from total dist paid
  have matched: "matched_total (projr (completeTournament 500 example_tournament)) = 100"
    by simp
  from distributePrizes_total [OF run0 z(2)] none
  have paid0: "paid_total (projr (completeTournament 500 no_prize_tournament)) = 0"
    by simp
  from run zeros(1) dist paid matched run0 none paid0 show ?thesis by blast
qed

text \<open>
  The claim as stated fails when two entries of \<open>prizeDistribution\<close> share a rank:
  with entries of 50 and 30 for rank 1 the participant of rank 1 receives the first,
  so 50 is paid while the entries whose rank is occupied sum to 80.
\<close>

theorem distributePrizes_duplicate_rank_counterexample:
  "map prize (participants duplicate_rank_tournament) = [0, 0, 0] \<and>
   map_sum id paid_total (completeTournament 500 duplicate_rank_tournament) = Inr 50 \<and>
   map_sum id matched_total (completeTournament 500 duplicate_rank_tournament) = Inr 80"
  by (simp add: tournament_defs example_defs paid_total_def matched_total_def)

end
